theory Spec2Isabelle
  imports Complex_Main "HOL-Library.Product_Lexorder"
begin

section \<open>Values held by a table\<close>

text \<open>
  A float64 value is a finite number, an infinity or NaN. Finite values are kept as
  rationals (every float64 is one). Comparisons are the IEEE ones and are exact;
  sums and quotients are computed exactly, without the rounding of float64.
\<close>

datatype pyfloat = Fin rat | PInf | NInf | NaN

text \<open>\<^verbatim>\<open>v < t\<close> and \<^verbatim>\<open>v > t\<close> for a float \<open>v\<close> and a finite number \<open>t\<close>:
  every comparison with NaN is false.\<close>

fun flt :: "pyfloat \<Rightarrow> rat \<Rightarrow> bool" where
  "flt (Fin x) t = (x < t)"
| "flt NInf t = True"
| "flt PInf t = False"
| "flt NaN t = False"

fun fgt :: "pyfloat \<Rightarrow> rat \<Rightarrow> bool" where
  "fgt (Fin x) t = (x > t)"
| "fgt PInf t = True"
| "fgt NInf t = False"
| "fgt NaN t = False"

text \<open>
  Calendar dates are (year, month, day) under the lexicographic order, which is the
  chronological one; a timestamp is a date and a time of day in nanoseconds.
\<close>

type_synonym date = "int \<times> nat \<times> nat"
type_synonym timestamp = "date \<times> int"

text \<open>
  The cells of a table as \<^verbatim>\<open>read_csv\<close> and the scripts produce them: a number (an
  int64 cell is the float of the same value), a text, a \<^verbatim>\<open>datetime.date\<close>, or a
  pandas timestamp (\<open>Stamp None\<close> is NaT). A missing numeric cell is \<open>Num NaN\<close>.
\<close>

datatype cell = Num pyfloat | Str string | Day date | Stamp "timestamp option"

type_synonym column = "cell list"

text \<open>A table is the list of its columns in order, each with its name.\<close>

type_synonym frame = "(string \<times> column) list"

section \<open>Text operations\<close>

text \<open>\<open>startswith p s\<close> is \<^verbatim>\<open>s.startswith(p)\<close> and \<open>contains sub s\<close> is \<^verbatim>\<open>sub in s\<close>.\<close>

fun startswith :: "string \<Rightarrow> string \<Rightarrow> bool" where
  "startswith [] s = True"
| "startswith (p # ps) [] = False"
| "startswith (p # ps) (c # cs) = (p = c \<and> startswith ps cs)"

fun contains :: "string \<Rightarrow> string \<Rightarrow> bool" where
  "contains sub [] = (sub = [])"
| "contains sub (c # cs) = (startswith sub (c # cs) \<or> contains sub cs)"

text \<open>
  A character is one of the 256 code points that a Latin-1 decoded header can hold.
  \<^verbatim>\<open>str.isspace\<close>, \<^verbatim>\<open>str.lower\<close> and \<^verbatim>\<open>str.strip\<close> on these code points:
\<close>

definition isspace :: "char \<Rightarrow> bool" where
  "isspace c = ((of_char c :: nat) \<in> {9, 10, 11, 12, 13, 28, 29, 30, 31, 32, 133, 160})"

definition lower_char :: "char \<Rightarrow> char" where
  "lower_char c =
     (let n = (of_char c :: nat)
      in if (65 \<le> n \<and> n \<le> 90) \<or> (192 \<le> n \<and> n \<le> 214) \<or> (216 \<le> n \<and> n \<le> 222)
         then char_of (n + 32) else c)"

definition lower :: "string \<Rightarrow> string" where
  "lower s = map lower_char s"

definition strip :: "string \<Rightarrow> string" where
  "strip s = rev (dropWhile isspace (rev (dropWhile isspace s)))"

text \<open>\<^verbatim>\<open>s.replace(" ", "_")\<close>: only the space character itself is replaced.\<close>

definition replace_space :: "string \<Rightarrow> string" where
  "replace_space s = map (\<lambda>c. if c = CHR '' '' then CHR ''_'' else c) s"

text \<open>\<^verbatim>\<open>s.replace(sub, "")\<close> for a non-empty \<open>sub\<close>, scanning from the left.\<close>

fun remove_sub :: "string \<Rightarrow> string \<Rightarrow> string" where
  "remove_sub sub [] = []"
| "remove_sub sub (c # cs) =
     (if sub \<noteq> [] \<and> startswith sub (c # cs)
      then remove_sub sub (drop (length sub - 1) cs)
      else c # remove_sub sub cs)"

text \<open>The decimal text of a natural number, as an f-string prints it.\<close>

fun str_nat :: "nat \<Rightarrow> string" where
  "str_nat n =
     (if n < 10 then [char_of (48 + n)]
      else str_nat (n div 10) @ [char_of (48 + n mod 10)])"

declare str_nat.simps [simp del]

section \<open>Table operations\<close>

definition names :: "frame \<Rightarrow> string list" where
  "names df = map fst df"

text \<open>\<^verbatim>\<open>df[c]\<close>: \<open>None\<close> is \<^verbatim>\<open>KeyError\<close>.\<close>

definition col :: "frame \<Rightarrow> string \<Rightarrow> column option" where
  "col df c = map_of df c"

text \<open>\<^verbatim>\<open>df[c] = v\<close>: an existing column keeps its place, a new one goes last.\<close>

definition set_col :: "string \<Rightarrow> column \<Rightarrow> frame \<Rightarrow> frame" where
  "set_col c v df =
     (if c \<in> set (names df) then map (\<lambda>(n, x). if n = c then (n, v) else (n, x)) df
      else df @ [(c, v)])"

definition rename :: "(string \<Rightarrow> string) \<Rightarrow> frame \<Rightarrow> frame" where
  "rename f df = map (\<lambda>(n, x). (f n, x)) df"

section \<open>Float arithmetic\<close>

fun fadd :: "pyfloat \<Rightarrow> pyfloat \<Rightarrow> pyfloat" where
  "fadd NaN y = NaN"
| "fadd x NaN = NaN"
| "fadd PInf NInf = NaN"
| "fadd NInf PInf = NaN"
| "fadd PInf y = PInf"
| "fadd x PInf = PInf"
| "fadd NInf y = NInf"
| "fadd x NInf = NInf"
| "fadd (Fin a) (Fin b) = Fin (a + b)"

fun fneg :: "pyfloat \<Rightarrow> pyfloat" where
  "fneg (Fin a) = Fin (- a)"
| "fneg PInf = NInf"
| "fneg NInf = PInf"
| "fneg NaN = NaN"

definition fsub :: "pyfloat \<Rightarrow> pyfloat \<Rightarrow> pyfloat" where
  "fsub x y = fadd x (fneg y)"

text \<open>Division by a positive count.\<close>

fun fdivn :: "pyfloat \<Rightarrow> nat \<Rightarrow> pyfloat" where
  "fdivn (Fin a) n = Fin (a / of_nat n)"
| "fdivn x n = x"

text \<open>\<open>fless x y\<close> is \<^verbatim>\<open>x < y\<close>.\<close>

fun fless :: "pyfloat \<Rightarrow> pyfloat \<Rightarrow> bool" where
  "fless NaN y = False"
| "fless x NaN = False"
| "fless (Fin a) (Fin b) = (a < b)"
| "fless NInf y = (y \<noteq> NInf)"
| "fless x PInf = (x \<noteq> PInf)"
| "fless x y = False"

definition fmin2 :: "pyfloat \<Rightarrow> pyfloat \<Rightarrow> pyfloat" where
  "fmin2 a b = (if fless b a then b else a)"

definition fmax2 :: "pyfloat \<Rightarrow> pyfloat \<Rightarrow> pyfloat" where
  "fmax2 a b = (if fless a b then b else a)"

text \<open>
  The reductions of pandas skip missing values (\<^verbatim>\<open>skipna=True\<close>) and give NaN when
  nothing is left. \<open>present\<close> lists the values of a column that are not missing.
\<close>

fun present :: "column \<Rightarrow> pyfloat list" where
  "present [] = []"
| "present (Num x # cs) = (if x = NaN then present cs else x # present cs)"
| "present (c # cs) = present cs"

definition nanmin :: "pyfloat list \<Rightarrow> pyfloat" where
  "nanmin xs = (case xs of [] \<Rightarrow> NaN | x # r \<Rightarrow> foldl fmin2 x r)"

definition nanmax :: "pyfloat list \<Rightarrow> pyfloat" where
  "nanmax xs = (case xs of [] \<Rightarrow> NaN | x # r \<Rightarrow> foldl fmax2 x r)"

definition nanmean :: "pyfloat list \<Rightarrow> pyfloat" where
  "nanmean xs = (if xs = [] then NaN else fdivn (foldl fadd (Fin 0) xs) (length xs))"

fun is_number :: "cell \<Rightarrow> bool" where
  "is_number (Num x) = True"
| "is_number c = False"

definition numeric :: "column \<Rightarrow> bool" where
  "numeric c = list_all is_number c"

section \<open>Stage 2: the categorization functions\<close>

text \<open>
  Python's \<^verbatim>\<open>float(v)\<close>: a float is returned as it is, a text goes through the
  interpreter's own conversion \<open>conv\<close> (\<open>None\<close> when it raises \<^verbatim>\<open>ValueError\<close>), a
  date or a timestamp raises \<^verbatim>\<open>TypeError\<close>. \<open>None\<close> stands for any exception.
\<close>

fun py_float :: "(string \<Rightarrow> pyfloat option) \<Rightarrow> cell \<Rightarrow> pyfloat option" where
  "py_float conv (Num x) = Some x"
| "py_float conv (Str s) = conv s"
| "py_float conv (Day d) = None"
| "py_float conv (Stamp t) = None"

definition wbgt_category :: "(string \<Rightarrow> pyfloat option) \<Rightarrow> cell \<Rightarrow> string" where
  "wbgt_category conv v =
     (case py_float conv v of
        None \<Rightarrow> ''Unknown''
      | Some x \<Rightarrow>
          if flt x 25 then ''Safe''
          else if flt x 28 then ''Caution''
          else if flt x 31 then ''Extreme Caution''
          else if flt x 33 then ''Danger''
          else ''Extreme Danger'')"

definition thi_category :: "(string \<Rightarrow> pyfloat option) \<Rightarrow> cell \<Rightarrow> string" where
  "thi_category conv v =
     (case py_float conv v of
        None \<Rightarrow> ''Unknown''
      | Some x \<Rightarrow>
          if flt x 72 then ''Comfort''
          else if flt x 79 then ''Alert''
          else if flt x 89 then ''Danger''
          else ''Emergency'')"

section \<open>Runs and what they leave behind\<close>

datatype pyexc = TypeError | KeyError | AttributeError | ValueError | OSError string

text \<open>
  What a run leaves behind, in order: the files it writes, the plots it saves (with the
  series drawn) and the lines it prints.
\<close>

datatype event =
    ErrReadingInput string
  | ErrNoDatetimeColumn
  | ErrColumns "string list"
  | WarnInvalidDatetimes nat
  | WarnNoMetrics
  | WroteDaily frame
  | SuccessDaily
  | ErrWritingDaily string
  | WroteCategorized frame
  | SuccessCategorized
  | ErrSavingCategorized string
  | WroteSummary "(string \<times> cell option) list"
  | SuccessSummary
  | SavedPlot string column
  | AllOutputsWritten

text \<open>
  How a run ends: \<^verbatim>\<open>sys.exit(1)\<close>, the end of the script, or an exception that nothing
  catches (the interpreter prints the traceback and the exit status is 1).
\<close>

datatype stat = Min | Mean | Max

datatype exit = Exit0 | Exit1 | Uncaught pyexc

fun exit_code :: "exit \<Rightarrow> nat" where
  "exit_code Exit0 = 0"
| "exit_code Exit1 = 1"
| "exit_code (Uncaught e) = 1"

section \<open>Stage 1: the daily aggregator\<close>

text \<open>
  What the script meets outside itself: the outcome of \<^verbatim>\<open>pd.read_csv\<close> with
  \<^verbatim>\<open>encoding="latin1"\<close>, the flag \<^verbatim>\<open>--dayfirst\<close>, \<^verbatim>\<open>pd.to_datetime\<close> with
  \<^verbatim>\<open>errors="coerce"\<close> under a given \<^verbatim>\<open>dayfirst\<close> (\<open>None\<close> when it raises, else the
  reading of each value of the column, \<open>None\<close> being NaT), and whether \<^verbatim>\<open>to_csv\<close>
  raises. The output directory is taken to exist.
\<close>

record env1 =
  read_csv1 :: "string + frame"
  dayfirst :: bool
  to_datetime1 :: "bool \<Rightarrow> column \<Rightarrow> (cell \<Rightarrow> timestamp option) option"
  daily_to_csv :: "string option"

text \<open>\<^verbatim>\<open>df.columns.str.strip().str.replace(" ", "_").str.lower()\<close>\<close>

definition normalize_name :: "string \<Rightarrow> string" where
  "normalize_name n = lower (replace_space (strip n))"

definition normalize1 :: "frame \<Rightarrow> frame" where
  "normalize1 df = rename normalize_name df"

text \<open>Lines 41 to 52: the timestamp column.\<close>

definition dt_pattern :: "string \<Rightarrow> bool" where
  "dt_pattern c =
     (contains ''datetime'' c \<or> (contains ''date'' c \<and> contains ''time'' c)
      \<or> c \<in> {''timestamp'', ''time''})"

definition find_dt_col :: "string list \<Rightarrow> string option" where
  "find_dt_col cols =
     (case find dt_pattern cols of
        Some c \<Rightarrow> Some c
      | None \<Rightarrow> find (contains ''date'') cols)"

text \<open>Lines 60 to 63: parsing, tried again with the default \<^verbatim>\<open>dayfirst\<close> if it raises.\<close>

definition parse_datetimes :: "env1 \<Rightarrow> column \<Rightarrow> timestamp option list option" where
  "parse_datetimes env v =
     (case to_datetime1 env (dayfirst env) v of
        Some f \<Rightarrow> Some (map f v)
      | None \<Rightarrow> map_option (\<lambda>f. map f v) (to_datetime1 env False v))"

text \<open>\<^verbatim>\<open>df[dt_col].isna().sum()\<close>\<close>

definition n_bad :: "timestamp option list \<Rightarrow> nat" where
  "n_bad ps = length (filter (\<lambda>p. p = None) ps)"

text \<open>\<^verbatim>\<open>df.dropna(subset=[dt_col])\<close>: the rows whose timestamp is not NaT are kept.\<close>

definition keep :: "timestamp option list \<Rightarrow> 'a list \<Rightarrow> 'a list" where
  "keep ps v = map fst (filter (\<lambda>(x, p). p \<noteq> None) (zip v ps))"

definition dropna :: "timestamp option list \<Rightarrow> frame \<Rightarrow> frame" where
  "dropna ps df = map (\<lambda>(n, v). (n, keep ps v)) df"

text \<open>\<^verbatim>\<open>df[dt_col].dt.date\<close> on the rows kept.\<close>

definition dates_of :: "timestamp option list \<Rightarrow> date list" where
  "dates_of ps = List.map_filter (map_option fst) ps"

text \<open>Lines 76 to 93: the metric columns, by key, in the order of discovery.\<close>

definition candidates :: "(string \<times> string list) list" where
  "candidates =
     [(''wbgtout'', [''wbgtout'', ''wbgt_out'', ''wbgt-out'', ''wbgt outdoor'', ''wbgt_outdoor'']),
      (''wbgtin'', [''wbgtin'', ''wbgt_in'', ''wbgt-in'', ''wbgt indoor'', ''wbgt_indoor'']),
      (''thi'', [''thi'', ''temperature_humidity_index'', ''temp_humidity_index''])]"

definition setdefault :: "string \<Rightarrow> string \<Rightarrow> (string \<times> string) list \<Rightarrow> (string \<times> string) list" where
  "setdefault k v d = (if k \<in> fst ` set d then d else d @ [(k, v)])"

definition found :: "string list \<Rightarrow> (string \<times> string) list" where
  "found cols =
     (let f0 = List.map_filter
                 (\<lambda>(key, ns). map_option (Pair key) (find (\<lambda>n. n \<in> set cols) ns)) candidates;
          f1 = (if ''temperature'' \<in> set cols
                then setdefault ''temperature'' ''temperature'' f0 else f0)
      in if ''humidity'' \<in> set cols then setdefault ''humidity'' ''humidity'' f1 else f1)"

text \<open>
  Lines 99 to 111. \<open>group d ds v\<close> is the part of column \<open>v\<close> on the rows dated \<open>d\<close>;
  \<^verbatim>\<open>groupby("date")\<close> yields the distinct dates in ascending order, and each statistic
  skips the missing values of its own column. A text in a metric column makes the
  aggregation raise.
\<close>

definition group :: "date \<Rightarrow> date list \<Rightarrow> column \<Rightarrow> column" where
  "group d ds v = map fst (filter (\<lambda>(x, e). e = d) (zip v ds))"

definition stat_name :: "stat \<Rightarrow> string" where
  "stat_name how = (case how of Min \<Rightarrow> ''min'' | Mean \<Rightarrow> ''mean'' | Max \<Rightarrow> ''max'')"

definition stat_of :: "stat \<Rightarrow> column \<Rightarrow> cell" where
  "stat_of how v =
     Num (case how of Min \<Rightarrow> nanmin (present v)
                    | Mean \<Rightarrow> nanmean (present v)
                    | Max \<Rightarrow> nanmax (present v))"

definition agg_column :: "date list \<Rightarrow> date list \<Rightarrow> string \<Rightarrow> column \<Rightarrow> frame" where
  "agg_column days ds c v =
     map (\<lambda>how. (strip (c @ ''_'' @ stat_name how), map (\<lambda>d. stat_of how (group d ds v)) days))
         [Min, Mean, Max]"

definition daily_table :: "string list \<Rightarrow> date list \<Rightarrow> frame \<Rightarrow> pyexc + frame" where
  "daily_table agg_cols ds df =
     (let days = sort (remdups ds)
      in if agg_cols = [] then Inr [(''date'', map Day days)]
         else if \<not> list_all (\<lambda>c. col df c \<noteq> None) agg_cols then Inl KeyError
         else if list_all numeric (List.map_filter (col df) agg_cols)
         then Inr ((''date'', map Day days) #
                   concat (map (\<lambda>c. case col df c of None \<Rightarrow> []
                                     | Some v \<Rightarrow> agg_column days ds c v) agg_cols))
         else Inl TypeError)"

text \<open>
  The column names that metric discovery sees: the timestamp column has been replaced by
  its parsed values, the bad rows dropped and the \<open>date\<close> column set.
\<close>

definition dated :: "frame \<Rightarrow> string \<Rightarrow> timestamp option list \<Rightarrow> frame" where
  "dated df dt ps =
     set_col ''date'' (map Day (dates_of ps)) (dropna ps (set_col dt (map Stamp ps) df))"

text \<open>Lines 59 to 119, from the normalized table and its timestamp column.\<close>

definition aggregate :: "env1 \<Rightarrow> frame \<Rightarrow> string \<Rightarrow> event list \<times> exit" where
  "aggregate env df dt =
     (case col df dt of
        None \<Rightarrow> ([], Uncaught KeyError)
      | Some v \<Rightarrow>
     (case parse_datetimes env v of
        None \<Rightarrow> ([], Uncaught ValueError)
      | Some ps \<Rightarrow>
          (let warn = (if n_bad ps > 0 then [WarnInvalidDatetimes (n_bad ps)] else []);
               df2 = dated df dt ps;
               fnd = found (names df2);
               warn2 = warn @ (if fnd = [] then [WarnNoMetrics] else [])
           in case daily_table (remdups (map snd fnd)) (dates_of ps) df2 of
                Inl e \<Rightarrow> (warn2, Uncaught e)
              | Inr daily \<Rightarrow>
                  (case daily_to_csv env of
                     None \<Rightarrow> (warn2 @ [WroteDaily daily, SuccessDaily], Exit0)
                   | Some e \<Rightarrow> (warn2 @ [ErrWritingDaily e], Exit1)))))"

text \<open>The whole script.\<close>

definition stage1 :: "env1 \<Rightarrow> event list \<times> exit" where
  "stage1 env =
     (case read_csv1 env of
        Inl e \<Rightarrow> ([ErrReadingInput e], Exit1)
      | Inr raw \<Rightarrow>
          (let df = normalize1 raw
           in case find_dt_col (names df) of
                None \<Rightarrow> ([ErrNoDatetimeColumn, ErrColumns (names df)], Exit1)
              | Some dt \<Rightarrow> aggregate env df dt))"

text \<open>
  The table that \<^verbatim>\<open>read_csv\<close> gives back from the file \<^verbatim>\<open>to_csv\<close> wrote: a date is
  written as \<^verbatim>\<open>YYYY-MM-DD\<close> and read as a text; a number is read back as it was.
\<close>

definition pad :: "nat \<Rightarrow> nat \<Rightarrow> string" where
  "pad k n = replicate (k - length (str_nat n)) CHR ''0'' @ str_nat n"

definition iso_date :: "date \<Rightarrow> string" where
  "iso_date d = (case d of (y, m, dd) \<Rightarrow> pad 4 (nat y) @ ''-'' @ pad 2 m @ ''-'' @ pad 2 dd)"

fun csv_cell :: "cell \<Rightarrow> cell" where
  "csv_cell (Day d) = Str (iso_date d)"
| "csv_cell c = c"

definition csv_table :: "frame \<Rightarrow> frame" where
  "csv_table df = map (\<lambda>(n, v). (n, map csv_cell v)) df"

section \<open>Stage 2: the exposure characterizer\<close>

text \<open>
  What the script meets outside itself: the outcome of \<^verbatim>\<open>pd.read_csv\<close> (\<open>Inl\<close> the
  message of its exception), \<^verbatim>\<open>float\<close> on a text, \<^verbatim>\<open>pd.to_datetime\<close> with
  \<^verbatim>\<open>errors="coerce"\<close> on the date column (\<open>None\<close> when it raises, else the reading of
  each value of that column, \<open>None\<close> being NaT), and whether each \<^verbatim>\<open>to_csv\<close> raises (\<open>Some\<close> the
  message), and what \<^verbatim>\<open>mean\<close>, \<^verbatim>\<open>max\<close> and \<^verbatim>\<open>min\<close> of pandas do on a column that
  is not numeric. The output directories are taken to exist and rendering a plot is
  taken to succeed.
\<close>

record env2 =
  read_csv :: "string + frame"
  str_float :: "string \<Rightarrow> pyfloat option"
  to_datetime :: "column \<Rightarrow> (cell \<Rightarrow> timestamp option) option"
  reduce_other :: "stat \<Rightarrow> column \<Rightarrow> pyexc + cell"
  categorized_to_csv :: "string option"
  summary_to_csv :: "string option"

text \<open>\<^verbatim>\<open>df.columns.str.strip().str.lower()\<close>\<close>

definition normalize2 :: "frame \<Rightarrow> frame" where
  "normalize2 df = rename (\<lambda>n. lower (strip n)) df"

definition date_col :: "frame \<Rightarrow> string option" where
  "date_col df = find (contains ''date'') (names df)"

text \<open>Lines 46 to 51: the date column is parsed; if parsing raises it is left alone.\<close>

definition parse_dates :: "env2 \<Rightarrow> frame \<Rightarrow> frame" where
  "parse_dates env df =
     (case date_col df of
        None \<Rightarrow> df
      | Some c \<Rightarrow>
          (case col df c of
             None \<Rightarrow> df
           | Some v \<Rightarrow>
               (case to_datetime env v of
                  None \<Rightarrow> df
                | Some f \<Rightarrow> set_col c (map (\<lambda>x. Stamp (f x)) v) df)))"

text \<open>
  On the table before parsing: there is no date column, or parsing it did not raise (the
  column is then datetime-like).
\<close>

definition dates_parsed :: "env2 \<Rightarrow> frame \<Rightarrow> bool" where
  "dates_parsed env df =
     (case date_col df of
        None \<Rightarrow> True
      | Some c \<Rightarrow> (case col df c of None \<Rightarrow> True | Some v \<Rightarrow> to_datetime env v \<noteq> None))"

text \<open>Lines 56 to 66: the mean column of a metric, with the bare key as fallback.\<close>

definition mean_col :: "string \<Rightarrow> frame \<Rightarrow> string option" where
  "mean_col key df =
     (case find (\<lambda>c. startswith key c \<and> contains ''mean'' c) (names df) of
        Some c \<Rightarrow> Some c
      | None \<Rightarrow> if key \<in> set (names df) then Some key else None)"

text \<open>Lines 103 to 108: \<^verbatim>\<open>cat_df[name] = cat_df[m].apply(f)\<close> when the mean column was found.\<close>

definition add_category ::
  "string option \<Rightarrow> string \<Rightarrow> (cell \<Rightarrow> string) \<Rightarrow> frame \<Rightarrow> pyexc + frame" where
  "add_category m name f cat =
     (case m of
        None \<Rightarrow> Inr cat
      | Some c \<Rightarrow>
          (case col cat c of
             None \<Rightarrow> Inl KeyError
           | Some v \<Rightarrow> Inr (set_col name (map (\<lambda>x. Str (f x)) v) cat)))"

text \<open>
  Arithmetic and comparison on a column that holds anything but numbers raise
  \<^verbatim>\<open>TypeError\<close>.
\<close>

fun cell_sub :: "cell \<Rightarrow> cell \<Rightarrow> cell" where
  "cell_sub (Num a) (Num b) = Num (fsub a b)"
| "cell_sub a b = Num NaN"

definition col_sub :: "column \<Rightarrow> column \<Rightarrow> pyexc + column" where
  "col_sub a b =
     (if numeric a \<and> numeric b then Inr (map (\<lambda>(x, y). cell_sub x y) (zip a b))
      else Inl TypeError)"

text \<open>\<^verbatim>\<open>(column > t).astype(int)\<close>\<close>

fun above_cell :: "rat \<Rightarrow> cell \<Rightarrow> cell" where
  "above_cell t (Num x) = Num (Fin (if fgt x t then 1 else 0))"
| "above_cell t c = Num NaN"

definition col_above :: "column \<Rightarrow> rat \<Rightarrow> pyexc + column" where
  "col_above v t = (if numeric v then Inr (map (above_cell t) v) else Inl TypeError)"

text \<open>Lines 113 to 120: the range columns, read from \<open>df\<close> and written to \<open>cat_df\<close>.\<close>

definition add_range :: "frame \<Rightarrow> string \<Rightarrow> frame \<Rightarrow> pyexc + frame" where
  "add_range df prefix cat =
     (case (col df (prefix @ ''_max''), col df (prefix @ ''_min'')) of
        (Some mx, Some mn) \<Rightarrow>
          (case col_sub mx mn of
             Inl e \<Rightarrow> Inl e
           | Inr r \<Rightarrow> Inr (set_col (prefix @ ''_range'') r cat))
      | _ \<Rightarrow> Inr cat)"

fun add_ranges :: "frame \<Rightarrow> string list \<Rightarrow> frame \<Rightarrow> pyexc + frame" where
  "add_ranges df [] cat = Inr cat"
| "add_ranges df (p # ps) cat =
     (case add_range df p cat of Inl e \<Rightarrow> Inl e | Inr cat' \<Rightarrow> add_ranges df ps cat')"

text \<open>Lines 125 to 129: one indicator column per threshold.\<close>

definition thresholds :: "nat list" where
  "thresholds = [25, 27, 28, 30, 32]"

definition above_name :: "nat \<Rightarrow> string" where
  "above_name t = ''wbgtout_above_'' @ str_nat t"

fun add_thresholds :: "string \<Rightarrow> nat list \<Rightarrow> frame \<Rightarrow> pyexc + frame" where
  "add_thresholds m [] cat = Inr cat"
| "add_thresholds m (t # ts) cat =
     (case col cat m of
        None \<Rightarrow> Inl KeyError
      | Some v \<Rightarrow>
          (case col_above v (of_nat t) of
             Inl e \<Rightarrow> Inl e
           | Inr ind \<Rightarrow> add_thresholds m ts (set_col (above_name t) ind cat)))"

text \<open>
  Lines 71 to 129: the table \<open>cat_df\<close> as it stands when it is saved, built from the
  table \<open>df\<close> that lines 43 to 51 leave.
\<close>

definition categorize :: "env2 \<Rightarrow> frame \<Rightarrow> pyexc + frame" where
  "categorize env df =
     (case add_category (mean_col ''wbgtout'' df) ''wbgtout_category''
             (wbgt_category (str_float env)) df of
        Inl e \<Rightarrow> Inl e
      | Inr c1 \<Rightarrow>
     (case add_category (mean_col ''wbgtin'' df) ''wbgtin_category''
             (wbgt_category (str_float env)) c1 of
        Inl e \<Rightarrow> Inl e
      | Inr c2 \<Rightarrow>
     (case add_category (mean_col ''thi'' df) ''thi_category''
             (thi_category (str_float env)) c2 of
        Inl e \<Rightarrow> Inl e
      | Inr c3 \<Rightarrow>
     (case add_ranges df [''wbgtout'', ''wbgtin'', ''thi''] c3 of
        Inl e \<Rightarrow> Inl e
      | Inr c4 \<Rightarrow>
     (case mean_col ''wbgtout'' df of
        None \<Rightarrow> Inr c4
      | Some m \<Rightarrow> add_thresholds m thresholds c4)))))"

text \<open>Lines 141 to 163: the summary record.\<close>

definition reduce :: "env2 \<Rightarrow> stat \<Rightarrow> column \<Rightarrow> pyexc + cell" where
  "reduce env how v =
     (if numeric v
      then Inr (Num (case how of Min \<Rightarrow> nanmin (present v)
                               | Mean \<Rightarrow> nanmean (present v)
                               | Max \<Rightarrow> nanmax (present v)))
      else reduce_other env how v)"

definition fill_summary ::
  "env2 \<Rightarrow> frame \<Rightarrow> string \<Rightarrow> string option \<Rightarrow> pyexc + (string \<times> cell option) list" where
  "fill_summary env cat label m =
     (case m of
        None \<Rightarrow> Inr [(label @ ''_mean_overall'', None), (label @ ''_max_overall'', None),
                      (label @ ''_min_overall'', None)]
      | Some c \<Rightarrow>
          (let prefix = remove_sub ''_mean'' c;
               max_col = prefix @ ''_max'';
               min_col = prefix @ ''_min''
           in case col cat c of
                None \<Rightarrow> Inl KeyError
              | Some v \<Rightarrow>
             (case reduce env Mean v of
                Inl e \<Rightarrow> Inl e
              | Inr a \<Rightarrow>
             (case reduce env Max (case col cat max_col of Some w \<Rightarrow> w | None \<Rightarrow> v) of
                Inl e \<Rightarrow> Inl e
              | Inr b \<Rightarrow>
             (case reduce env Min (case col cat min_col of Some w \<Rightarrow> w | None \<Rightarrow> v) of
                Inl e \<Rightarrow> Inl e
              | Inr d \<Rightarrow>
                  Inr [(label @ ''_mean_overall'', Some a), (label @ ''_max_overall'', Some b),
                       (label @ ''_min_overall'', Some d)])))))"

definition danger_days :: "frame \<Rightarrow> string \<Rightarrow> cell option" where
  "danger_days cat name =
     (case col cat name of
        None \<Rightarrow> None
      | Some v \<Rightarrow>
          Some (Num (Fin (of_nat (length
            (filter (\<lambda>c. c = Str ''Danger'' \<or> c = Str ''Extreme Danger'') v))))))"

definition summary :: "env2 \<Rightarrow> frame \<Rightarrow> frame \<Rightarrow> pyexc + (string \<times> cell option) list" where
  "summary env df cat =
     (case fill_summary env cat ''WBGTout'' (mean_col ''wbgtout'' df) of
        Inl e \<Rightarrow> Inl e
      | Inr s1 \<Rightarrow>
     (case fill_summary env cat ''WBGTin'' (mean_col ''wbgtin'' df) of
        Inl e \<Rightarrow> Inl e
      | Inr s2 \<Rightarrow>
     (case fill_summary env cat ''THI'' (mean_col ''thi'' df) of
        Inl e \<Rightarrow> Inl e
      | Inr s3 \<Rightarrow>
          Inr (s1 @ s2 @ s3 @
               [(''Days_in_Danger_or_Worse_WBGTout'', danger_days cat ''wbgtout_category''),
                (''Days_in_Danger_or_Worse_WBGTin'', danger_days cat ''wbgtin_category'')]))))"

text \<open>
  Lines 198 to 205: one time-series plot per mean column found. With a date column the
  tick labels come from \<^verbatim>\<open>cat_df[date_col].dt\<close>, which raises \<^verbatim>\<open>AttributeError\<close>
  on a column that is not datetime-like; \<open>date_ok\<close> says that there is no date column
  or that it was parsed.
\<close>

definition ts_plots :: "bool \<Rightarrow> frame \<Rightarrow> frame \<Rightarrow> pyexc + event list" where
  "ts_plots date_ok df cat =
     (let ms = List.map_filter (\<lambda>k. mean_col k df) [''wbgtout'', ''wbgtin'', ''thi'']
      in if ms \<noteq> [] \<and> \<not> date_ok then Inl AttributeError
         else Inr (map (\<lambda>m. SavedPlot (m @ ''.png'') (case col cat m of Some v \<Rightarrow> v | None \<Rightarrow> [])) ms))"

text \<open>
  Lines 211 to 213: the count of thresholds exceeded, added to \<open>cat_df\<close> after it was
  saved. \<^verbatim>\<open>sum(axis=1)\<close> skips missing values.
\<close>

definition add_skipna :: "pyfloat \<Rightarrow> cell \<Rightarrow> pyfloat" where
  "add_skipna a c = (case c of Num x \<Rightarrow> if x = NaN then a else fadd a x | _ \<Rightarrow> a)"

fun row_sums :: "column list \<Rightarrow> column" where
  "row_sums [] = []"
| "row_sums (c # cs) =
     map Num (foldl (\<lambda>acc v. map (\<lambda>(a, x). add_skipna a x) (zip acc v))
                    (replicate (length c) (Fin 0)) (c # cs))"

definition exceed_cols :: "frame \<Rightarrow> string list" where
  "exceed_cols cat = filter (startswith ''wbgtout_above_'') (names cat)"

definition add_exceedance :: "frame \<Rightarrow> pyexc + frame" where
  "add_exceedance cat =
     (if exceed_cols cat = [] then Inr cat
      else let vs = List.map_filter (col cat) (exceed_cols cat)
           in if list_all numeric vs
              then Inr (set_col ''num_thresholds_exceeded'' (row_sums vs) cat)
              else Inl TypeError)"

text \<open>
  Lines 131 to 230, from the table \<open>df\<close> of line 66 and the table \<open>cat\<close> of line 129:
  the events of the rest of the run, how it ends, and \<open>cat_df\<close> as it is at the end.
\<close>

definition outputs ::
  "env2 \<Rightarrow> bool \<Rightarrow> frame \<Rightarrow> frame \<Rightarrow> event list \<times> exit \<times> frame" where
  "outputs env date_ok df cat =
     (let saved = (case categorized_to_csv env of
                     None \<Rightarrow> [WroteCategorized cat, SuccessCategorized]
                   | Some e \<Rightarrow> [ErrSavingCategorized e])
      in case summary env df cat of
           Inl e \<Rightarrow> (saved, Uncaught e, cat)
         | Inr s \<Rightarrow>
        (case summary_to_csv env of
           Some e \<Rightarrow> (saved, Uncaught (OSError e), cat)
         | None \<Rightarrow>
        (let written = saved @ [WroteSummary s, SuccessSummary]
         in case ts_plots date_ok df cat of
              Inl e \<Rightarrow> (written, Uncaught e, cat)
            | Inr plots \<Rightarrow>
           (case add_exceedance cat of
              Inl e \<Rightarrow> (written @ plots, Uncaught e, cat)
            | Inr cat' \<Rightarrow>
                if exceed_cols cat = []
                then (written @ plots @ [AllOutputsWritten], Exit0, cat')
                else if \<not> date_ok
                then (written @ plots, Uncaught AttributeError, cat')
                else (written @ plots @
                        [SavedPlot ''wbgtout_threshold_exceedance_count.png''
                           (case col cat' ''num_thresholds_exceeded'' of
                              Some v \<Rightarrow> v | None \<Rightarrow> []),
                         AllOutputsWritten], Exit0, cat')))))"

text \<open>The whole script. The table returned is \<open>cat_df\<close> at the end, if it was built.\<close>

definition stage2 :: "env2 \<Rightarrow> event list \<times> exit \<times> frame option" where
  "stage2 env =
     (case read_csv env of
        Inl e \<Rightarrow> ([ErrReadingInput e], Exit1, None)
      | Inr raw \<Rightarrow>
          (let df0 = normalize2 raw;
               df = parse_dates env df0
           in case categorize env df of
                Inl e \<Rightarrow> ([], Uncaught e, None)
              | Inr cat \<Rightarrow>
                  (case outputs env (dates_parsed env df0) df cat of
                     (evs, ex, cat') \<Rightarrow> (evs, ex, Some cat'))))"

text \<open>
  The number of thresholds in 25, 27, 28, 30, 32 that a mean value strictly exceeds.
\<close>

fun exceeds :: "cell \<Rightarrow> nat \<Rightarrow> bool" where
  "exceeds (Num x) t = fgt x (of_nat t)"
| "exceeds c t = False"

definition count_exceeded :: "cell \<Rightarrow> nat" where
  "count_exceeded c = length (filter (exceeds c) [25, 27, 28, 30, 32])"

section \<open>The example of the specification\<close>

text \<open>
  Three readings of outdoor WBGT on two days. \<open>example_readings\<close> holds what
  \<^verbatim>\<open>pd.to_datetime\<close> reads from the texts of the example (time of day in nanoseconds);
  no text of the example reaches \<^verbatim>\<open>float\<close>, and every column reduced is numeric.
\<close>

definition example_input :: frame where
  "example_input =
     [(''timestamp'', [Str ''2020-01-01 00:15'', Str ''2020-01-01 06:15'', Str ''2020-01-02 00:15'']),
      (''wbgtout'', [Num (Fin 24), Num (Fin 30.5), Num (Fin 34)])]"

definition example_readings :: "cell \<Rightarrow> timestamp option" where
  "example_readings c =
     (if c = Str ''2020-01-01 00:15'' then Some ((2020, 1, 1), 900000000000)
      else if c = Str ''2020-01-01 06:15'' then Some ((2020, 1, 1), 22500000000000)
      else if c = Str ''2020-01-02 00:15'' then Some ((2020, 1, 2), 900000000000)
      else if c = Str ''2020-01-01'' then Some ((2020, 1, 1), 0)
      else if c = Str ''2020-01-02'' then Some ((2020, 1, 2), 0)
      else None)"

definition example_env1 :: env1 where
  "example_env1 =
     \<lparr>read_csv1 = Inr example_input, dayfirst = False,
      to_datetime1 = (\<lambda>b v. Some example_readings), daily_to_csv = None\<rparr>"

definition example_daily :: frame where
  "example_daily =
     [(''date'', [Day (2020, 1, 1), Day (2020, 1, 2)]),
      (''wbgtout_min'', [Num (Fin 24), Num (Fin 34)]),
      (''wbgtout_mean'', [Num (Fin 27.25), Num (Fin 34)]),
      (''wbgtout_max'', [Num (Fin 30.5), Num (Fin 34)])]"

definition example_env2 :: env2 where
  "example_env2 =
     \<lparr>read_csv = Inr (csv_table example_daily), str_float = (\<lambda>s. None),
      to_datetime = (\<lambda>v. Some example_readings), reduce_other = (\<lambda>how v. Inl TypeError),
      categorized_to_csv = None, summary_to_csv = None\<rparr>"

definition example_categorized :: frame where
  "example_categorized =
     [(''date'', [Stamp (Some ((2020, 1, 1), 0)), Stamp (Some ((2020, 1, 2), 0))]),
      (''wbgtout_min'', [Num (Fin 24), Num (Fin 34)]),
      (''wbgtout_mean'', [Num (Fin 27.25), Num (Fin 34)]),
      (''wbgtout_max'', [Num (Fin 30.5), Num (Fin 34)]),
      (''wbgtout_category'', [Str ''Caution'', Str ''Extreme Danger'']),
      (''wbgtout_range'', [Num (Fin 6.5), Num (Fin 0)]),
      (''wbgtout_above_25'', [Num (Fin 1), Num (Fin 1)]),
      (''wbgtout_above_27'', [Num (Fin 1), Num (Fin 1)]),
      (''wbgtout_above_28'', [Num (Fin 0), Num (Fin 1)]),
      (''wbgtout_above_30'', [Num (Fin 0), Num (Fin 1)]),
      (''wbgtout_above_32'', [Num (Fin 0), Num (Fin 1)])]"

definition example_summary :: "(string \<times> cell option) list" where
  "example_summary =
     [(''WBGTout_mean_overall'', Some (Num (Fin 30.625))),
      (''WBGTout_max_overall'', Some (Num (Fin 34))),
      (''WBGTout_min_overall'', Some (Num (Fin 24))),
      (''WBGTin_mean_overall'', None), (''WBGTin_max_overall'', None),
      (''WBGTin_min_overall'', None), (''THI_mean_overall'', None),
      (''THI_max_overall'', None), (''THI_min_overall'', None),
      (''Days_in_Danger_or_Worse_WBGTout'', Some (Num (Fin 1))),
      (''Days_in_Danger_or_Worse_WBGTin'', None)]"

text \<open>The same daily table with the mean of the second day missing.\<close>

definition example_missing :: frame where
  "example_missing =
     [(''date'', [Str ''2020-01-01'', Str ''2020-01-02'']),
      (''wbgtout_min'', [Num (Fin 24), Num NaN]),
      (''wbgtout_mean'', [Num (Fin 27.25), Num NaN]),
      (''wbgtout_max'', [Num (Fin 30.5), Num NaN])]"

text \<open>The table \<open>df\<close> of the example at line 66 of stage 2.\<close>

definition example_df :: frame where
  "example_df = parse_dates example_env2 (normalize2 (csv_table example_daily))"

text \<open>
  The table saved by a run, if any, and a column of the table \<open>cat_df\<close> that a run
  ends with.
\<close>

fun saved_categorized :: "event list \<Rightarrow> frame option" where
  "saved_categorized [] = None"
| "saved_categorized (WroteCategorized t # evs) = Some t"
| "saved_categorized (e # evs) = saved_categorized evs"

fun final_column :: "event list \<times> exit \<times> frame option \<Rightarrow> string \<Rightarrow> column option" where
  "final_column (evs, ex, Some t) c = col t c"
| "final_column (evs, ex, None) c = None"

section \<open>Properties of column discovery in stage 1\<close>




lemma lower_char_space: "lower_char c = CHR '' '' \<Longrightarrow> c = CHR '' ''"
proof (rule ccontr)
  assume h: "lower_char c = CHR '' ''" and n: "c \<noteq> CHR '' ''"
  let ?n = "of_char c :: nat"
  from h n have r: "(65 \<le> ?n \<and> ?n \<le> 90) \<or> (192 \<le> ?n \<and> ?n \<le> 214) \<or> (216 \<le> ?n \<and> ?n \<le> 222)"
    and e: "char_of (?n + 32) = CHR '' ''"
    by (auto simp: lower_char_def Let_def split: if_splits)
  from e have "(of_char (char_of (?n + 32)) :: nat) = of_char (CHR '' '')" by simp
  then have m: "(?n + 32) mod 256 = 32" by simp
  from r have "?n + 32 < 256" by auto
  then have "(?n + 32) mod 256 = ?n + 32" by (rule mod_less)
  with m r show False by auto
qed

lemma normalize_name_no_space: "CHR '' '' \<notin> set (normalize_name n)"
proof
  assume "CHR '' '' \<in> set (normalize_name n)"
  then obtain c where c: "c \<in> set (replace_space (strip n))" and l: "lower_char c = CHR '' ''"
    by (auto simp: normalize_name_def lower_def)
  from l have "c = CHR '' ''" by (rule lower_char_space)
  with c show False by (auto simp: replace_space_def split: if_splits)
qed

lemma names_set_col: "names (set_col c v df) = (if c \<in> set (names df) then names df else names df @ [c])"
  by (auto simp: set_col_def names_def split_beta)

lemma names_dropna: "names (dropna ps df) = names df"
  by (simp add: dropna_def names_def split_beta)

lemma names_rename: "names (rename f df) = map f (names df)"
  by (simp add: rename_def names_def split_beta)

lemma names_dated: "dt \<in> set (names df) \<Longrightarrow> set (names (dated df dt ps)) = insert ''date'' (set (names df))"
  by (auto simp: dated_def names_set_col names_dropna split: if_splits)

lemma find_SomeD: "find P xs = Some x \<Longrightarrow> x \<in> set xs \<and> P x"
  by (induction xs) (auto split: if_splits)

lemma in_map_filter: "y \<in> set (List.map_filter f xs) \<longleftrightarrow> (\<exists>x\<in>set xs. f x = Some y)"
  by (induction xs) (auto split: option.splits)

lemma set_setdefault: "set (setdefault k v d) \<subseteq> insert (k, v) (set d)"
  by (auto simp: setdefault_def)


lemma found_sound:
  assumes "(k, c) \<in> set (found cols)"
  shows "c \<in> set cols \<and> ((\<exists>ns. (k, ns) \<in> set candidates \<and> c \<in> set ns) \<or> (k = c \<and> (c = ''temperature'' \<or> c = ''humidity'')))"
proof -
  let ?f0 = "List.map_filter (\<lambda>(key, ns). map_option (Pair key) (find (\<lambda>n. n \<in> set cols) ns)) candidates"
  have f0: "(k, c) \<in> set ?f0 \<Longrightarrow> c \<in> set cols \<and> (\<exists>ns. (k, ns) \<in> set candidates \<and> c \<in> set ns)"
    by (auto simp: in_map_filter dest: find_SomeD)
  from assms have "(k, c) \<in> set ?f0 \<or> ((k, c) = (''temperature'', ''temperature'') \<and> ''temperature'' \<in> set cols)
      \<or> ((k, c) = (''humidity'', ''humidity'') \<and> ''humidity'' \<in> set cols)"
  proof -
    have a: "\<And>d. (k, c) \<in> set (setdefault ''temperature'' ''temperature'' d) \<Longrightarrow> (k, c) \<in> set d \<or> (k, c) = (''temperature'', ''temperature'')"
      using set_setdefault by blast
    have b: "\<And>d. (k, c) \<in> set (setdefault ''humidity'' ''humidity'' d) \<Longrightarrow> (k, c) \<in> set d \<or> (k, c) = (''humidity'', ''humidity'')"
      using set_setdefault by blast
    show ?thesis
    proof (cases "''humidity'' \<in> set cols")
      case h: True
      show ?thesis
      proof (cases "''temperature'' \<in> set cols")
        case True
        with h assms show ?thesis unfolding found_def Let_def by (simp only: if_True) (blast dest: a b)
      next
        case False
        with h assms show ?thesis unfolding found_def Let_def by (simp only: if_True if_False) (blast dest: a b)
      qed
    next
      case h: False
      show ?thesis
      proof (cases "''temperature'' \<in> set cols")
        case True
        with h assms show ?thesis unfolding found_def Let_def by (simp only: if_True if_False) (blast dest: a b)
      next
        case False
        with h assms show ?thesis unfolding found_def Let_def by (simp only: if_True if_False) (blast dest: a b)
      qed
    qed
  qed
  with f0 show ?thesis by auto
qed




abbreviation wbgtout_aliases :: "string list" where
  "wbgtout_aliases \<equiv> [''wbgtout'', ''wbgt_out'', ''wbgt-out'', ''wbgt outdoor'', ''wbgt_outdoor'']"

abbreviation wbgtin_aliases :: "string list" where
  "wbgtin_aliases \<equiv> [''wbgtin'', ''wbgt_in'', ''wbgt-in'', ''wbgt indoor'', ''wbgt_indoor'']"

lemma candidates_wbgtout: "(''wbgtout'', ns) \<in> set candidates \<Longrightarrow> ns = wbgtout_aliases"
  by (simp add: candidates_def)

lemma candidates_wbgtin: "(''wbgtin'', ns) \<in> set candidates \<Longrightarrow> ns = wbgtin_aliases"
  by (simp add: candidates_def)

lemma found_wbgtout:
  assumes "(''wbgtout'', c) \<in> set (found cols)"
  shows "c \<in> set cols \<and> c \<in> set wbgtout_aliases"
proof -
  from found_sound [OF assms] have c: "c \<in> set cols"
    and d: "(\<exists>ns. (''wbgtout'', ns) \<in> set candidates \<and> c \<in> set ns)
       \<or> (''wbgtout'' = c \<and> (c = ''temperature'' \<or> c = ''humidity''))"
    by blast+
  from d have "\<exists>ns. (''wbgtout'', ns) \<in> set candidates \<and> c \<in> set ns" by fastforce
  then obtain ns where "(''wbgtout'', ns) \<in> set candidates" and "c \<in> set ns" by blast
  with candidates_wbgtout have "c \<in> set wbgtout_aliases" by blast
  with c show ?thesis by blast
qed

lemma found_wbgtin:
  assumes "(''wbgtin'', c) \<in> set (found cols)"
  shows "c \<in> set cols \<and> c \<in> set wbgtin_aliases"
proof -
  from found_sound [OF assms] have c: "c \<in> set cols"
    and d: "(\<exists>ns. (''wbgtin'', ns) \<in> set candidates \<and> c \<in> set ns)
       \<or> (''wbgtin'' = c \<and> (c = ''temperature'' \<or> c = ''humidity''))"
    by blast+
  from d have "\<exists>ns. (''wbgtin'', ns) \<in> set candidates \<and> c \<in> set ns" by fastforce
  then obtain ns where "(''wbgtin'', ns) \<in> set candidates" and "c \<in> set ns" by blast
  with candidates_wbgtin have "c \<in> set wbgtin_aliases" by blast
  with c show ?thesis by blast
qed

lemma wbgtout_no_space:
  assumes "c \<in> set wbgtout_aliases" and "CHR '' '' \<notin> set c"
  shows "c \<in> {''wbgtout'', ''wbgt_out'', ''wbgt-out'', ''wbgt_outdoor''}"
proof -
  have "CHR '' '' \<in> set ''wbgt outdoor''" by simp
  with assms(2) have "c \<noteq> ''wbgt outdoor''" by blast
  with assms(1) show ?thesis by simp
qed

lemma wbgtin_no_space:
  assumes "c \<in> set wbgtin_aliases" and "CHR '' '' \<notin> set c"
  shows "c \<in> {''wbgtin'', ''wbgt_in'', ''wbgt-in'', ''wbgt_indoor''}"
proof -
  have "CHR '' '' \<in> set ''wbgt indoor''" by simp
  with assms(2) have "c \<noteq> ''wbgt indoor''" by blast
  with assms(1) show ?thesis by simp
qed



lemma find_first:
  "\<exists>c\<in>set xs. P c \<Longrightarrow>
   \<exists>pre c post. xs = pre @ c # post \<and> P c \<and> (\<forall>x\<in>set pre. \<not> P x) \<and> find P xs = Some c"
proof (induction xs)
  case Nil
  then show ?case by simp
next
  case (Cons a xs)
  show ?case
  proof (cases "P a")
    case True
    then have "a # xs = [] @ a # xs \<and> P a \<and> (\<forall>x\<in>set []. \<not> P x) \<and> find P (a # xs) = Some a"
      by simp
    then show ?thesis by blast
  next
    case False
    with Cons.prems have "\<exists>c\<in>set xs. P c" by auto
    from Cons.IH [OF this] obtain pre c post
      where h: "xs = pre @ c # post" "P c" "\<forall>x\<in>set pre. \<not> P x" "find P xs = Some c"
      by blast
    with False have "a # xs = (a # pre) @ c # post \<and> P c \<and> (\<forall>x\<in>set (a # pre). \<not> P x)
        \<and> find P (a # xs) = Some c"
      by simp
    then show ?thesis by blast
  qed
qed

lemma find_none: "\<forall>c\<in>set xs. \<not> P c \<Longrightarrow> find P xs = None"
  by (induction xs) auto



text \<open>
  Claim C7. The first column, in column order, whose normalized name contains
  \<open>datetime\<close>, or contains both \<open>date\<close> and \<open>time\<close>, or is \<open>timestamp\<close> or \<open>time\<close>, is the
  timestamp column; if there is none, the first column whose name contains \<open>date\<close> is;
  the run goes on with that column. If no name matches, the run prints the error and
  the full list of column names, writes nothing and exits with status 1.
\<close>

theorem timestamp_discovery:
  "((\<exists>c\<in>set cols. dt_pattern c) \<longrightarrow>
      (\<exists>pre c post. cols = pre @ c # post \<and> dt_pattern c \<and> (\<forall>x\<in>set pre. \<not> dt_pattern x)
         \<and> find_dt_col cols = Some c)) \<and>
   ((\<forall>c\<in>set cols. \<not> dt_pattern c) \<and> (\<exists>c\<in>set cols. contains ''date'' c) \<longrightarrow>
      (\<exists>pre c post. cols = pre @ c # post \<and> contains ''date'' c
         \<and> (\<forall>x\<in>set pre. \<not> contains ''date'' x) \<and> find_dt_col cols = Some c)) \<and>
   (read_csv1 env = Inr raw \<and> find_dt_col (names (normalize1 raw)) = Some dt \<longrightarrow>
      stage1 env = aggregate env (normalize1 raw) dt) \<and>
   (read_csv1 env = Inr raw \<and>
    (\<forall>c\<in>set (names (normalize1 raw)). \<not> dt_pattern c \<and> \<not> contains ''date'' c) \<longrightarrow>
      stage1 env = ([ErrNoDatetimeColumn, ErrColumns (names (normalize1 raw))], Exit1))"
proof (intro conjI impI)
  assume "\<exists>c\<in>set cols. dt_pattern c"
  from find_first [OF this] obtain pre c post
    where h: "cols = pre @ c # post" "dt_pattern c" "\<forall>x\<in>set pre. \<not> dt_pattern x"
      "find dt_pattern cols = Some c"
    by blast
  from h(4) have "find_dt_col cols = Some c" by (simp add: find_dt_col_def)
  with h show "\<exists>pre c post. cols = pre @ c # post \<and> dt_pattern c
      \<and> (\<forall>x\<in>set pre. \<not> dt_pattern x) \<and> find_dt_col cols = Some c"
    by blast
next
  assume a: "(\<forall>c\<in>set cols. \<not> dt_pattern c) \<and> (\<exists>c\<in>set cols. contains ''date'' c)"
  then have n: "find dt_pattern cols = None" by (simp add: find_none)
  from a have "\<exists>c\<in>set cols. contains ''date'' c" by simp
  from find_first [OF this] obtain pre c post
    where h: "cols = pre @ c # post" "contains ''date'' c" "\<forall>x\<in>set pre. \<not> contains ''date'' x"
      "find (contains ''date'') cols = Some c"
    by blast
  from n h(4) have "find_dt_col cols = Some c" by (simp add: find_dt_col_def)
  with h show "\<exists>pre c post. cols = pre @ c # post \<and> contains ''date'' c
      \<and> (\<forall>x\<in>set pre. \<not> contains ''date'' x) \<and> find_dt_col cols = Some c"
    by blast
next
  assume "read_csv1 env = Inr raw \<and> find_dt_col (names (normalize1 raw)) = Some dt"
  then show "stage1 env = aggregate env (normalize1 raw) dt"
    by (simp add: stage1_def)
next
  assume a: "read_csv1 env = Inr raw \<and>
    (\<forall>c\<in>set (names (normalize1 raw)). \<not> dt_pattern c \<and> \<not> contains ''date'' c)"
  then have "find dt_pattern (names (normalize1 raw)) = None"
    and "find (contains ''date'') (names (normalize1 raw)) = None"
    by (simp_all add: find_none)
  then have "find_dt_col (names (normalize1 raw)) = None" by (simp add: find_dt_col_def)
  with a show "stage1 env = ([ErrNoDatetimeColumn, ErrColumns (names (normalize1 raw))], Exit1)"
    by (simp add: stage1_def)
qed



theorem timestamp_discovery_witness:
  "find_dt_col [''id'', ''date'', ''time''] = Some ''time'' \<and>
   find_dt_col [''id'', ''update_date''] = Some ''update_date'' \<and>
   stage1 \<lparr>read_csv1 = Inr [(''ID'', []), ('' Value'', [])], dayfirst = False,
          to_datetime1 = (\<lambda>b c. None), daily_to_csv = None\<rparr>
      = ([ErrNoDatetimeColumn, ErrColumns [''id'', ''value'']], Exit1)"
proof -
  let ?env = "\<lparr>read_csv1 = Inr [(''ID'', []), ('' Value'', [])], dayfirst = False,
          to_datetime1 = (\<lambda>b c. None), daily_to_csv = None\<rparr>"
  have n: "names (normalize1 [(''ID'', []), ('' Value'', [])]) = [''id'', ''value'']"
    by code_simp
  have a: "\<exists>c\<in>set [''id'', ''date'', ''time'']. dt_pattern c"
    by (simp add: dt_pattern_def)
  have b: "(\<forall>c\<in>set [''id'', ''update_date'']. \<not> dt_pattern c) \<and>
      (\<exists>c\<in>set [''id'', ''update_date'']. contains ''date'' c)"
    by (simp add: dt_pattern_def)
  have c: "read_csv1 ?env = Inr [(''ID'', []), ('' Value'', [])] \<and>
    (\<forall>c\<in>set (names (normalize1 [(''ID'', []), ('' Value'', [])])).
       \<not> dt_pattern c \<and> \<not> contains ''date'' c)"
    unfolding n by (simp add: dt_pattern_def)
  from a timestamp_discovery [of "[''id'', ''date'', ''time'']"]
  obtain pre x post where x: "[''id'', ''date'', ''time''] = pre @ x # post" "dt_pattern x"
    "\<forall>y\<in>set pre. \<not> dt_pattern y" "find_dt_col [''id'', ''date'', ''time''] = Some x"
    by blast
  have "\<not> dt_pattern ''id''" and "\<not> dt_pattern ''date''"
    by (simp_all add: dt_pattern_def)
  with x(1,2) have "x = ''time''"
    by (cases pre; cases "tl pre"; cases "tl (tl pre)") auto
  with x(4) have 1: "find_dt_col [''id'', ''date'', ''time''] = Some ''time''" by simp
  have 2: "find_dt_col [''id'', ''update_date''] = Some ''update_date''" by code_simp
  from c timestamp_discovery [of _ ?env "[(''ID'', []), ('' Value'', [])]"]
  have "stage1 ?env =
      ([ErrNoDatetimeColumn, ErrColumns (names (normalize1 [(''ID'', []), ('' Value'', [])]))], Exit1)"
    by blast
  with n 1 2 show ?thesis by simp
qed

text \<open>
  Claim C10. No normalized column name contains a space, so the aliases
  \<open>wbgt outdoor\<close> and \<open>wbgt indoor\<close> are never the column discovered: in a run that
  found its timestamp column, the column discovered for \<open>wbgtout\<close> is one of
  \<open>wbgtout\<close>, \<open>wbgt_out\<close>, \<open>wbgt-out\<close>, \<open>wbgt_outdoor\<close>, and likewise for \<open>wbgtin\<close>.
\<close>

theorem space_aliases_never_discovered:
  assumes "find_dt_col (names (normalize1 raw)) = Some dt"
  shows "(\<forall>n\<in>set (names (dated (normalize1 raw) dt ps)). CHR '' '' \<notin> set n) \<and>
    (\<forall>c. (''wbgtout'', c) \<in> set (found (names (dated (normalize1 raw) dt ps))) \<longrightarrow>
       c \<in> {''wbgtout'', ''wbgt_out'', ''wbgt-out'', ''wbgt_outdoor''}) \<and>
    (\<forall>c. (''wbgtin'', c) \<in> set (found (names (dated (normalize1 raw) dt ps))) \<longrightarrow>
       c \<in> {''wbgtin'', ''wbgt_in'', ''wbgt-in'', ''wbgt_indoor''})"
proof -
  let ?cols = "names (dated (normalize1 raw) dt ps)"
  from assms have "dt \<in> set (names (normalize1 raw))"
    by (auto simp: find_dt_col_def split: option.splits dest: find_SomeD)
  then have "set ?cols = insert ''date'' (set (names (normalize1 raw)))"
    by (rule names_dated)
  then have "set ?cols = insert ''date'' (normalize_name ` set (names raw))"
    by (simp add: normalize1_def names_rename)
  then have nosp: "\<forall>n\<in>set ?cols. CHR '' '' \<notin> set n"
    using normalize_name_no_space by auto
  have out: "c \<in> {''wbgtout'', ''wbgt_out'', ''wbgt-out'', ''wbgt_outdoor''}"
    if "(''wbgtout'', c) \<in> set (found ?cols)" for c
  proof -
    from found_wbgtout [OF that] nosp have "c \<in> set wbgtout_aliases" and "CHR '' '' \<notin> set c"
      by blast+
    then show ?thesis by (rule wbgtout_no_space)
  qed
  have inn: "c \<in> {''wbgtin'', ''wbgt_in'', ''wbgt-in'', ''wbgt_indoor''}"
    if "(''wbgtin'', c) \<in> set (found ?cols)" for c
  proof -
    from found_wbgtin [OF that] nosp have "c \<in> set wbgtin_aliases" and "CHR '' '' \<notin> set c"
      by blast+
    then show ?thesis by (rule wbgtin_no_space)
  qed
  from nosp out inn show ?thesis by blast
qed

theorem space_aliases_never_discovered_witness:
  "find_dt_col (names (normalize1 [(''Date Time'', [Str ''?'']), (''WBGT Outdoor'', [Num (Fin 30)])]))
     = Some ''date_time'' \<and>
   (''wbgtout'', ''wbgt_outdoor'') \<in> set (found (names (dated
       (normalize1 [(''Date Time'', [Str ''?'']), (''WBGT Outdoor'', [Num (Fin 30)])])
       ''date_time'' [None]))) \<and>
   ''wbgt_outdoor'' \<in> {''wbgtout'', ''wbgt_out'', ''wbgt-out'', ''wbgt_outdoor''}"
proof -
  let ?raw = "[(''Date Time'', [Str ''?'']), (''WBGT Outdoor'', [Num (Fin 30)])]"
  have h: "find_dt_col (names (normalize1 ?raw)) = Some ''date_time''"
    by code_simp
  have m: "(''wbgtout'', ''wbgt_outdoor'')
      \<in> set (found (names (dated (normalize1 ?raw) ''date_time'' [None])))"
    by code_simp
  from space_aliases_never_discovered [OF h, of "[None]"] m
  have "''wbgt_outdoor'' \<in> {''wbgtout'', ''wbgt_out'', ''wbgt-out'', ''wbgt_outdoor''}"
    by blast
  with h m show ?thesis by blast
qed

section \<open>Properties of the table operations\<close>

lemma map_of_replace:
  "map_of (map (\<lambda>(n, x). if n = c then (n, v) else (n, x)) df) c' =
     (if c' = c then (if c \<in> fst ` set df then Some v else None) else map_of df c')"
proof (induction df)
  case Nil
  then show ?case by simp
next
  case (Cons a df)
  obtain n x where a: "a = (n, x)" by (cases a)
  from Cons show ?case unfolding a by (cases "n = c") (force simp: image_iff)+
qed

lemma col_set_col: "col (set_col c v df) c' = (if c' = c then Some v else col df c')"
proof (cases "c \<in> set (names df)")
  case True
  then show ?thesis
    by (simp add: col_def set_col_def names_def map_of_replace)
next
  case False
  then have "map_of df c = None"
    by (simp add: names_def map_of_eq_None_iff)
  with False show ?thesis
    by (simp add: col_def set_col_def map_add_def split: option.splits)
qed

lemma filter_names_set_col:
  "\<not> P c \<Longrightarrow> filter P (names (set_col c v df)) = filter P (names df)"
  by (simp add: names_set_col)

lemma add_category_col:
  "add_category m name f cat = Inr cat' \<Longrightarrow> c \<noteq> name \<Longrightarrow> col cat' c = col cat c"
  by (auto simp: add_category_def col_set_col split: option.splits)

lemma add_category_names:
  "add_category m name f cat = Inr cat' \<Longrightarrow> \<not> P name \<Longrightarrow>
   filter P (names cat') = filter P (names cat)"
  by (auto simp: add_category_def filter_names_set_col split: option.splits)

lemma add_range_col:
  "add_range df p cat = Inr cat' \<Longrightarrow> c \<noteq> p @ ''_range'' \<Longrightarrow> col cat' c = col cat c"
  by (auto simp: add_range_def col_set_col split: option.splits sum.splits)

lemma add_range_names:
  "add_range df p cat = Inr cat' \<Longrightarrow> \<not> P (p @ ''_range'') \<Longrightarrow>
   filter P (names cat') = filter P (names cat)"
  by (auto simp: add_range_def filter_names_set_col split: option.splits sum.splits)

lemma add_ranges_col:
  "add_ranges df ps cat = Inr cat' \<Longrightarrow> \<forall>p\<in>set ps. c \<noteq> p @ ''_range'' \<Longrightarrow>
   col cat' c = col cat c"
proof (induction ps arbitrary: cat)
  case Nil
  then show ?case by simp
next
  case (Cons p ps)
  from Cons.prems(1) obtain c1 where 1: "add_range df p cat = Inr c1"
    and 2: "add_ranges df ps c1 = Inr cat'"
    by (auto split: sum.splits)
  from Cons.prems(2) have "c \<noteq> p @ ''_range''" and r: "\<forall>p\<in>set ps. c \<noteq> p @ ''_range''"
    by simp_all
  with 1 have "col c1 c = col cat c" by (simp add: add_range_col)
  with Cons.IH [OF 2 r] show ?case by simp
qed

lemma add_ranges_names:
  "add_ranges df ps cat = Inr cat' \<Longrightarrow> \<forall>p\<in>set ps. \<not> P (p @ ''_range'') \<Longrightarrow>
   filter P (names cat') = filter P (names cat)"
proof (induction ps arbitrary: cat)
  case Nil
  then show ?case by simp
next
  case (Cons p ps)
  from Cons.prems(1) obtain c1 where 1: "add_range df p cat = Inr c1"
    and 2: "add_ranges df ps c1 = Inr cat'"
    by (auto split: sum.splits)
  from Cons.prems(2) have "\<not> P (p @ ''_range'')" and r: "\<forall>p\<in>set ps. \<not> P (p @ ''_range'')"
    by simp_all
  with 1 have "filter P (names c1) = filter P (names cat)" by (simp add: add_range_names)
  with Cons.IH [OF 2 r] show ?case by simp
qed

lemma add_thresholds_cols:
  "add_thresholds m ts cat = Inr cat' \<Longrightarrow> col cat m = Some v \<Longrightarrow>
   m \<notin> above_name ` set ts \<Longrightarrow> distinct (map above_name ts) \<Longrightarrow>
   (\<forall>t\<in>set ts. col cat' (above_name t) = Some (map (above_cell (of_nat t)) v)) \<and>
   (\<forall>c. c \<notin> above_name ` set ts \<longrightarrow> col cat' c = col cat c) \<and>
   (ts \<noteq> [] \<longrightarrow> numeric v)"
proof (induction ts arbitrary: cat)
  case Nil
  then show ?case by simp
next
  case (Cons t ts)
  let ?ind = "map (above_cell (of_nat t)) v"
  let ?c1 = "set_col (above_name t) ?ind cat"
  from Cons.prems(1,2) have num: "numeric v" and 2: "add_thresholds m ts ?c1 = Inr cat'"
    by (auto simp: col_above_def split: if_splits)
  from Cons.prems(3) have mt: "m \<noteq> above_name t" and mts: "m \<notin> above_name ` set ts"
    by auto
  from Cons.prems(4) have nt: "above_name t \<notin> above_name ` set ts"
    and d: "distinct (map above_name ts)"
    by auto
  from mt Cons.prems(2) have "col ?c1 m = Some v" by (simp add: col_set_col)
  from Cons.IH [OF 2 this mts d]
  have a: "\<forall>s\<in>set ts. col cat' (above_name s) = Some (map (above_cell (of_nat s)) v)"
    and b: "\<forall>c. c \<notin> above_name ` set ts \<longrightarrow> col cat' c = col ?c1 c"
    by blast+
  from b nt have "col cat' (above_name t) = Some ?ind" by (simp add: col_set_col)
  moreover from b have "\<forall>c. c \<notin> above_name ` set (t # ts) \<longrightarrow> col cat' c = col cat c"
    by (simp add: col_set_col)
  ultimately show ?case using a num by simp
qed

lemma add_thresholds_names:
  "add_thresholds m ts cat = Inr cat' \<Longrightarrow>
   set (map above_name ts) \<inter> set (names cat) = {} \<Longrightarrow> distinct (map above_name ts) \<Longrightarrow>
   names cat' = names cat @ map above_name ts"
proof (induction ts arbitrary: cat)
  case Nil
  then show ?case by simp
next
  case (Cons t ts)
  from Cons.prems(1) obtain v ind where 1: "col cat m = Some v"
    and 2: "add_thresholds m ts (set_col (above_name t) ind cat) = Inr cat'"
    by (auto split: option.splits sum.splits)
  from Cons.prems(2) have nin: "above_name t \<notin> set (names cat)" by auto
  then have n1: "names (set_col (above_name t) ind cat) = names cat @ [above_name t]"
    by (simp add: names_set_col)
  from Cons.prems(2,3) have "set (map above_name ts) \<inter> set (names cat @ [above_name t]) = {}"
    by auto
  with n1 have 3: "set (map above_name ts) \<inter> set (names (set_col (above_name t) ind cat)) = {}"
    by simp
  from Cons.prems(3) have 4: "distinct (map above_name ts)" by simp
  from Cons.IH [OF 2 3 4] n1 show ?case by simp
qed

lemma mean_col_sound:
  "mean_col key df = Some m \<Longrightarrow>
   m \<in> set (names df) \<and> (m = key \<or> (startswith key m \<and> contains ''mean'' m))"
  by (auto simp: mean_col_def split: option.splits if_splits dest: find_SomeD)

section \<open>Properties of the categorized table\<close>

lemma above_names: "map above_name thresholds =
    [''wbgtout_above_25'', ''wbgtout_above_27'', ''wbgtout_above_28'', ''wbgtout_above_30'',
     ''wbgtout_above_32'']"
  by code_simp

lemma derived_names:
  "list_all (\<lambda>n. \<not> contains ''mean'' n \<and> n \<noteq> ''wbgtout'')
     ([''wbgtout_category'', ''wbgtin_category'', ''thi_category'', ''wbgtout_range'',
       ''wbgtin_range'', ''thi_range''] @ map above_name thresholds)"
  by code_simp

lemma derived_not_exceed:
  "list_all (\<lambda>n. \<not> startswith ''wbgtout_above_'' n)
     [''wbgtout_category'', ''wbgtin_category'', ''thi_category'', ''wbgtout_range'',
       ''wbgtin_range'', ''thi_range'']"
  by code_simp

lemma above_names_exceed: "list_all (startswith ''wbgtout_above_'') (map above_name thresholds)"
  by code_simp

lemma above_names_distinct: "distinct (map above_name thresholds)"
  by code_simp

lemma mean_not_derived:
  assumes "mean_col ''wbgtout'' df = Some m"
  shows "m \<notin> set ([''wbgtout_category'', ''wbgtin_category'', ''thi_category'', ''wbgtout_range'',
       ''wbgtin_range'', ''thi_range''] @ map above_name thresholds)"
proof
  assume a: "m \<in> set ([''wbgtout_category'', ''wbgtin_category'', ''thi_category'',
      ''wbgtout_range'', ''wbgtin_range'', ''thi_range''] @ map above_name thresholds)"
  with derived_names have "\<not> contains ''mean'' m \<and> m \<noteq> ''wbgtout''"
    unfolding list_all_iff by blast
  with mean_col_sound [OF assms] show False by blast
qed

text \<open>The table that is saved, when the outdoor mean column \<open>m\<close> was found.\<close>

lemma categorize_cols:
  assumes c: "categorize env df = Inr cat"
    and m: "mean_col ''wbgtout'' df = Some m"
    and v: "col df m = Some v"
  shows "numeric v"
    and "\<forall>t\<in>set thresholds. col cat (above_name t) = Some (map (above_cell (of_nat t)) v)"
    and "\<forall>c. c \<notin> set ([''wbgtout_category'', ''wbgtin_category'', ''thi_category'',
            ''wbgtout_range'', ''wbgtin_range'', ''thi_range''] @ map above_name thresholds)
          \<longrightarrow> col cat c = col df c"
    and "(\<forall>n\<in>set (names df). \<not> startswith ''wbgtout_above_'' n) \<longrightarrow>
          exceed_cols cat = map above_name thresholds"
proof -
  from c m obtain c1 c2 c3 c4
    where 1: "add_category (Some m) ''wbgtout_category'' (wbgt_category (str_float env)) df = Inr c1"
      and 2: "add_category (mean_col ''wbgtin'' df) ''wbgtin_category''
                (wbgt_category (str_float env)) c1 = Inr c2"
      and 3: "add_category (mean_col ''thi'' df) ''thi_category''
                (thi_category (str_float env)) c2 = Inr c3"
      and 4: "add_ranges df [''wbgtout'', ''wbgtin'', ''thi''] c3 = Inr c4"
      and 5: "add_thresholds m thresholds c4 = Inr cat"
    unfolding categorize_def by (auto split: sum.splits)
  have keep4: "col c4 c = col df c"
    if "c \<notin> set [''wbgtout_category'', ''wbgtin_category'', ''thi_category'',
            ''wbgtout_range'', ''wbgtin_range'', ''thi_range'']" for c
  proof -
    from that have n: "c \<noteq> ''wbgtout_category''" "c \<noteq> ''wbgtin_category''" "c \<noteq> ''thi_category''"
      and r: "\<forall>p\<in>set [''wbgtout'', ''wbgtin'', ''thi'']. c \<noteq> p @ ''_range''"
      by simp_all
    from add_ranges_col [OF 4 r] add_category_col [OF 3 n(3)] add_category_col [OF 2 n(2)]
      add_category_col [OF 1 n(1)]
    show ?thesis by simp
  qed
  from mean_not_derived [OF m]
  have m6: "m \<notin> set [''wbgtout_category'', ''wbgtin_category'', ''thi_category'',
            ''wbgtout_range'', ''wbgtin_range'', ''thi_range'']"
    and mab: "m \<notin> above_name ` set thresholds"
    by simp_all
  from keep4 [OF m6] v have v4: "col c4 m = Some v" by simp
  from add_thresholds_cols [OF 5 v4 mab above_names_distinct]
  have t1: "\<forall>t\<in>set thresholds. col cat (above_name t) = Some (map (above_cell (of_nat t)) v)"
    and t2: "\<forall>c. c \<notin> above_name ` set thresholds \<longrightarrow> col cat c = col c4 c"
    and t3: "thresholds \<noteq> [] \<longrightarrow> numeric v"
    by blast+
  from t3 show "numeric v" by (simp add: thresholds_def)
  from t1 show "\<forall>t\<in>set thresholds. col cat (above_name t) = Some (map (above_cell (of_nat t)) v)" .
  from t2 keep4 show "\<forall>c. c \<notin> set ([''wbgtout_category'', ''wbgtin_category'', ''thi_category'',
            ''wbgtout_range'', ''wbgtin_range'', ''thi_range''] @ map above_name thresholds)
          \<longrightarrow> col cat c = col df c"
    by simp
  show "(\<forall>n\<in>set (names df). \<not> startswith ''wbgtout_above_'' n) \<longrightarrow>
          exceed_cols cat = map above_name thresholds"
  proof
    let ?P = "startswith ''wbgtout_above_''"
    assume a: "\<forall>n\<in>set (names df). \<not> ?P n"
    from derived_not_exceed have p: "\<not> ?P ''wbgtout_category''" "\<not> ?P ''wbgtin_category''"
      "\<not> ?P ''thi_category''"
      and r: "\<forall>p\<in>set [''wbgtout'', ''wbgtin'', ''thi'']. \<not> ?P (p @ ''_range'')"
      by simp_all
    from add_ranges_names [OF 4, of ?P, OF r] add_category_names [OF 3, of ?P, OF p(3)]
      add_category_names [OF 2, of ?P, OF p(2)] add_category_names [OF 1, of ?P, OF p(1)]
    have f4: "filter ?P (names c4) = filter ?P (names df)" by simp
    from a have "filter ?P (names df) = []" by (simp add: filter_empty_conv)
    with f4 have e4: "filter ?P (names c4) = []" by simp
    then have "\<forall>n\<in>set (names c4). \<not> ?P n" by (simp add: filter_empty_conv)
    with above_names_exceed have "set (map above_name thresholds) \<inter> set (names c4) = {}"
      unfolding list_all_iff by blast
    from add_thresholds_names [OF 5 this above_names_distinct]
    have "names cat = names c4 @ map above_name thresholds" .
    with e4 above_names_exceed show "exceed_cols cat = map above_name thresholds"
      by (simp add: exceed_cols_def list_all_iff)
  qed
qed

lemma zip_map_same: "zip (map f v) (map h v) = map (\<lambda>c. (f c, h c)) v"
  by (induction v) auto

lemma add_skipna_above:
  "add_skipna (Fin (of_nat n)) (above_cell (of_nat t) (Num x)) =
     Fin (of_nat (n + (if exceeds (Num x) t then 1 else 0)))"
  by (simp add: add_skipna_def)

lemma fold_above:
  "numeric v \<Longrightarrow>
   foldl (\<lambda>acc w. map (\<lambda>(a, x). add_skipna a x) (zip acc w))
         (map (\<lambda>c. Fin (of_nat (g c))) v) (map (\<lambda>t. map (above_cell (of_nat t)) v) ts)
   = map (\<lambda>c. Fin (of_nat (g c + length (filter (exceeds c) ts)))) v"
proof (induction ts arbitrary: g)
  case Nil
  then show ?case by simp
next
  case (Cons t ts)
  have step: "map (\<lambda>(a, x). add_skipna a x)
        (zip (map (\<lambda>c. Fin (of_nat (g c))) v) (map (above_cell (of_nat t)) v))
      = map (\<lambda>c. Fin (of_nat (g c + (if exceeds c t then 1 else 0)))) v"
  proof -
    have "add_skipna (Fin (of_nat (g c))) (above_cell (of_nat t) c)
        = Fin (of_nat (g c + (if exceeds c t then 1 else 0)))" if "c \<in> set v" for c
    proof -
      from that Cons.prems have "is_number c" by (simp add: numeric_def list_all_iff)
      then obtain x where "c = Num x" by (cases c) auto
      then show ?thesis by (simp only: add_skipna_above)
    qed
    then show ?thesis by (simp add: zip_map_same)
  qed
  have "foldl (\<lambda>acc w. map (\<lambda>(a, x). add_skipna a x) (zip acc w))
         (map (\<lambda>c. Fin (of_nat (g c))) v) (map (\<lambda>t. map (above_cell (of_nat t)) v) (t # ts))
     = foldl (\<lambda>acc w. map (\<lambda>(a, x). add_skipna a x) (zip acc w))
         (map (\<lambda>c. Fin (of_nat (g c + (if exceeds c t then 1 else 0)))) v)
         (map (\<lambda>t. map (above_cell (of_nat t)) v) ts)"
    by (simp only: list.map foldl_Cons step)
  also have "\<dots> = map (\<lambda>c. Fin (of_nat ((g c + (if exceeds c t then 1 else 0))
        + length (filter (exceeds c) ts)))) v"
    by (rule Cons.IH [OF Cons.prems])
  also have "\<dots> = map (\<lambda>c. Fin (of_nat (g c + length (filter (exceeds c) (t # ts))))) v"
    by simp
  finally show ?case .
qed

lemma row_sums_above:
  assumes "numeric v" and "ts \<noteq> []"
  shows "row_sums (map (\<lambda>t. map (above_cell (of_nat t)) v) ts)
     = map (\<lambda>c. Num (Fin (of_nat (length (filter (exceeds c) ts))))) v"
proof -
  from assms(2) obtain t r where ts: "ts = t # r" by (cases ts) auto
  have "replicate (length (map (above_cell (of_nat t)) v)) (Fin 0) = map (\<lambda>c. Fin (of_nat 0)) v"
    by (simp add: map_replicate_const)
  then have "row_sums (map (\<lambda>t. map (above_cell (of_nat t)) v) ts)
    = map Num (foldl (\<lambda>acc w. map (\<lambda>(a, x). add_skipna a x) (zip acc w))
         (map (\<lambda>c. Fin (of_nat 0)) v) (map (\<lambda>t. map (above_cell (of_nat t)) v) ts))"
    unfolding ts by (simp only: list.map row_sums.simps)
  also have "\<dots> = map Num (map (\<lambda>c. Fin (of_nat (0 + length (filter (exceeds c) ts)))) v)"
    by (simp only: fold_above [OF assms(1), of "\<lambda>c. 0"])
  finally show ?thesis by simp
qed

lemma numeric_above: "numeric (map (above_cell t) v)" if "numeric v"
  using that by (induction v) (auto simp: numeric_def elim: is_number.elims)

lemma col_length_nth:
  "map f v ! i = f (v ! i)" if "i < length v"
  using that by simp

text \<open>
  Claim C9. When the outdoor mean column is found and the table is built, a row whose
  mean is missing holds 0 in each of the five indicator columns, and its number of
  thresholds exceeded is 0.
\<close>

theorem missing_mean_exceeds_nothing:
  assumes "categorize env df = Inr cat"
    and "mean_col ''wbgtout'' df = Some m"
    and "col df m = Some v"
    and "i < length v"
    and "v ! i = Num NaN"
  shows "(\<forall>n\<in>set [''wbgtout_above_25'', ''wbgtout_above_27'', ''wbgtout_above_28'',
                  ''wbgtout_above_30'', ''wbgtout_above_32''].
            \<exists>ind. col cat n = Some ind \<and> length ind = length v \<and> ind ! i = Num (Fin 0)) \<and>
         count_exceeded (v ! i) = 0"
proof -
  have "\<exists>ind. col cat n = Some ind \<and> length ind = length v \<and> ind ! i = Num (Fin 0)"
    if "n \<in> set (map above_name thresholds)" for n
  proof -
    from that obtain t where t: "t \<in> set thresholds" and n: "n = above_name t" by auto
    from categorize_cols(2) [OF assms(1,2,3)] t n
    have "col cat n = Some (map (above_cell (of_nat t)) v)" by blast
    moreover from assms(4,5) have "map (above_cell (of_nat t)) v ! i = Num (Fin 0)" by simp
    ultimately show ?thesis by simp
  qed
  then have "\<forall>n\<in>set (map above_name thresholds).
      \<exists>ind. col cat n = Some ind \<and> length ind = length v \<and> ind ! i = Num (Fin 0)"
    by blast
  moreover from assms(5) have "count_exceeded (v ! i) = 0" by (simp add: count_exceeded_def)
  ultimately show ?thesis unfolding above_names by blast
qed

lemma count_exceeded_thresholds: "count_exceeded c = length (filter (exceeds c) thresholds)"
  by (simp add: count_exceeded_def thresholds_def)

lemma map_filter_col:
  "\<forall>t\<in>set ts. col cat (f t) = Some (g t) \<Longrightarrow> List.map_filter (col cat) (map f ts) = map g ts"
  by (induction ts) auto

lemma outputs_saves:
  "categorized_to_csv env = None \<longrightarrow>
     hd (fst (outputs env ok df cat)) = WroteCategorized cat"
  by (auto simp: outputs_def Let_def split: sum.splits option.splits)

lemma outputs_final:
  "add_exceedance cat = Inr cat' \<Longrightarrow>
   fst (snd (outputs env ok df cat)) = Exit0 \<longrightarrow> snd (snd (outputs env ok df cat)) = cat'"
  by (auto simp: outputs_def Let_def split: sum.splits option.splits if_splits)

text \<open>
  Claim C2, as amended. The table is saved before the count is computed: the saved
  table has a column \<open>num_thresholds_exceeded\<close> only if the input had one. When the
  outdoor mean column is found and the input has no column named \<open>wbgtout_above_...\<close>
  of its own, the count added afterwards to the table in memory (and drawn in the
  exceedance plot) is, for each row, the number of thresholds in 25, 27, 28, 30, 32
  that the row's mean strictly exceeds; a run that ends normally ends with that table.
\<close>

theorem exceedance_count_after_saving:
  assumes "categorize env df = Inr cat"
    and "mean_col ''wbgtout'' df = Some m"
    and "col df m = Some v"
    and "\<forall>n\<in>set (names df). \<not> startswith ''wbgtout_above_'' n"
  shows "\<exists>cat'. add_exceedance cat = Inr cat' \<and>
           col cat' ''num_thresholds_exceeded''
             = Some (map (\<lambda>c. Num (Fin (of_nat (count_exceeded c)))) v) \<and>
           col cat ''num_thresholds_exceeded'' = col df ''num_thresholds_exceeded'' \<and>
           (categorized_to_csv env = None \<longrightarrow>
              hd (fst (outputs env ok df cat)) = WroteCategorized cat) \<and>
           (fst (snd (outputs env ok df cat)) = Exit0 \<longrightarrow>
              snd (snd (outputs env ok df cat)) = cat')"
proof -
  note cc = categorize_cols [OF assms(1,2,3)]
  from cc(4) assms(4) have ex: "exceed_cols cat = map above_name thresholds" by blast
  from cc(2) have vs: "List.map_filter (col cat) (map above_name thresholds)
      = map (\<lambda>t. map (above_cell (of_nat t)) v) thresholds"
    by (rule map_filter_col)
  have num: "list_all numeric (map (\<lambda>t. map (above_cell (of_nat t)) v) thresholds)"
    using cc(1) by (simp add: list_all_iff numeric_above)
  have ne: "map above_name thresholds \<noteq> []" by (simp add: thresholds_def)
  have rs: "row_sums (map (\<lambda>t. map (above_cell (of_nat t)) v) thresholds)
      = map (\<lambda>c. Num (Fin (of_nat (count_exceeded c)))) v"
    using row_sums_above [OF cc(1), of thresholds]
    by (simp add: count_exceeded_thresholds thresholds_def)
  let ?cat' = "set_col ''num_thresholds_exceeded''
      (map (\<lambda>c. Num (Fin (of_nat (count_exceeded c)))) v) cat"
  from ex vs num ne rs have a: "add_exceedance cat = Inr ?cat'"
    by (simp add: add_exceedance_def)
  have b: "col ?cat' ''num_thresholds_exceeded''
      = Some (map (\<lambda>c. Num (Fin (of_nat (count_exceeded c)))) v)"
    by (simp add: col_set_col)
  have "''num_thresholds_exceeded'' \<notin> set ([''wbgtout_category'', ''wbgtin_category'',
      ''thi_category'', ''wbgtout_range'', ''wbgtin_range'', ''thi_range'']
      @ map above_name thresholds)"
    unfolding above_names by simp
  with cc(3) have c: "col cat ''num_thresholds_exceeded'' = col df ''num_thresholds_exceeded''"
    by blast
  note d = outputs_saves [of env ok df cat]
  note e = outputs_final [OF a, of env ok df]
  show ?thesis
    by (rule exI [of _ ?cat']) (intro conjI a b c d e)
qed

section \<open>Properties of the categorization functions\<close>

lemma wbgt_category_Fin:
  "wbgt_category conv (Num (Fin x)) =
     (if x < 25 then ''Safe'' else if x < 28 then ''Caution''
      else if x < 31 then ''Extreme Caution'' else if x < 33 then ''Danger''
      else ''Extreme Danger'')"
  by (simp add: wbgt_category_def)

lemma thi_category_Fin:
  "thi_category conv (Num (Fin x)) =
     (if x < 72 then ''Comfort'' else if x < 79 then ''Alert''
      else if x < 89 then ''Danger'' else ''Emergency'')"
  by (simp add: thi_category_def)

text \<open>
  Claim C5. On every finite number the two categorization functions return the label of
  the band the number lies in, and never \<open>''Unknown''\<close>; each band is closed below and
  open above_cell, so a boundary value belongs to the more severe band: 25 is \<open>''Caution''\<close>
  for WBGT and 79 is \<open>''Danger''\<close> for THI.
\<close>

theorem categories_total_on_numbers:
  "(x < 25 \<longrightarrow> wbgt_category conv (Num (Fin x)) = ''Safe'') \<and>
   (25 \<le> x \<and> x < 28 \<longrightarrow> wbgt_category conv (Num (Fin x)) = ''Caution'') \<and>
   (28 \<le> x \<and> x < 31 \<longrightarrow> wbgt_category conv (Num (Fin x)) = ''Extreme Caution'') \<and>
   (31 \<le> x \<and> x < 33 \<longrightarrow> wbgt_category conv (Num (Fin x)) = ''Danger'') \<and>
   (33 \<le> x \<longrightarrow> wbgt_category conv (Num (Fin x)) = ''Extreme Danger'') \<and>
   wbgt_category conv (Num (Fin 25)) = ''Caution'' \<and>
   wbgt_category conv (Num (Fin x)) \<noteq> ''Unknown'' \<and>
   (y < 72 \<longrightarrow> thi_category conv (Num (Fin y)) = ''Comfort'') \<and>
   (72 \<le> y \<and> y < 79 \<longrightarrow> thi_category conv (Num (Fin y)) = ''Alert'') \<and>
   (79 \<le> y \<and> y < 89 \<longrightarrow> thi_category conv (Num (Fin y)) = ''Danger'') \<and>
   (89 \<le> y \<longrightarrow> thi_category conv (Num (Fin y)) = ''Emergency'') \<and>
   thi_category conv (Num (Fin 79)) = ''Danger'' \<and>
   thi_category conv (Num (Fin y)) \<noteq> ''Unknown''"
  unfolding wbgt_category_Fin thi_category_Fin by simp

theorem categories_total_on_numbers_witness:
  "wbgt_category (\<lambda>s. None) (Num (Fin 24)) = ''Safe'' \<and>
   wbgt_category (\<lambda>s. None) (Num (Fin 27)) = ''Caution'' \<and>
   wbgt_category (\<lambda>s. None) (Num (Fin 28)) = ''Extreme Caution'' \<and>
   wbgt_category (\<lambda>s. None) (Num (Fin 32)) = ''Danger'' \<and>
   wbgt_category (\<lambda>s. None) (Num (Fin 33)) = ''Extreme Danger'' \<and>
   thi_category (\<lambda>s. None) (Num (Fin 71)) = ''Comfort'' \<and>
   thi_category (\<lambda>s. None) (Num (Fin 72)) = ''Alert'' \<and>
   thi_category (\<lambda>s. None) (Num (Fin 88)) = ''Danger'' \<and>
   thi_category (\<lambda>s. None) (Num (Fin 89)) = ''Emergency''"
  using categories_total_on_numbers [of 24 "\<lambda>s. None" 71]
    categories_total_on_numbers [of 27 "\<lambda>s. None" 72]
    categories_total_on_numbers [of 28 "\<lambda>s. None" 88]
    categories_total_on_numbers [of 32 "\<lambda>s. None" 89]
    categories_total_on_numbers [of 33 "\<lambda>s. None" 89]
  by simp

text \<open>
  Claim C3. A value on which \<^verbatim>\<open>float\<close> raises gets \<open>''Unknown''\<close>, but a missing value
  does not: a missing cell of a numeric column is NaN, \<^verbatim>\<open>float\<close> accepts it, every
  comparison with it is false, and the last branch of each function is taken.
\<close>

theorem missing_value_category:
  "wbgt_category conv (Num NaN) = ''Extreme Danger'' \<and>
   thi_category conv (Num NaN) = ''Emergency'' \<and>
   wbgt_category (\<lambda>s. None) (Str ''n/a'') = ''Unknown'' \<and>
   thi_category (\<lambda>s. None) (Str ''n/a'') = ''Unknown''"
  by (simp add: wbgt_category_def thi_category_def)

end
